theory Spec2Isabelle
  imports Complex_Main "HOL-Library.Sublist"
begin

section \<open>Python values and the operations the component applies to them\<close>

text \<open>
  What \<^verbatim>\<open>xmltodict.parse\<close> builds from a document: \<^verbatim>\<open>None\<close> for an empty element, a
  \<^verbatim>\<open>str\<close> for text, a list for a repeated element and an (ordered) dict for an element
  with children or attributes. A dict is an association list in document order; a key is
  looked up with \<open>map_of\<close>. Strings are \<open>char list\<close>s.
\<close>

datatype pyval =
    PNone
  | PStr string
  | PList "pyval list"
  | PDict "(string \<times> pyval) list"

text \<open>The exceptions the modelled code can meet; all of them derive from \<^verbatim>\<open>Exception\<close>.\<close>

datatype exn =
    TypeError
  | ValueError
  | AttributeError
  | KeyError
  | UnboundLocalError
  | RequestException
  | ExpatError

text \<open>\<^verbatim>\<open>x.get(k)\<close>: only a dict has the method; a missing key gives \<^verbatim>\<open>None\<close>.\<close>

fun py_get :: "pyval \<Rightarrow> string \<Rightarrow> exn + pyval" where
  "py_get (PDict d) k = Inr (case map_of d k of None \<Rightarrow> PNone | Some v \<Rightarrow> v)"
| "py_get PNone k = Inl AttributeError"
| "py_get (PStr s) k = Inl AttributeError"
| "py_get (PList xs) k = Inl AttributeError"

text \<open>
  \<^verbatim>\<open>x[k]\<close> with a string key: \<^verbatim>\<open>KeyError\<close> for a dict without the key, \<^verbatim>\<open>TypeError\<close>
  for \<^verbatim>\<open>None\<close> (not subscriptable) and for a \<^verbatim>\<open>str\<close> or a list (indices must be integers).
\<close>

fun py_getitem :: "pyval \<Rightarrow> string \<Rightarrow> exn + pyval" where
  "py_getitem (PDict d) k = (case map_of d k of None \<Rightarrow> Inl KeyError | Some v \<Rightarrow> Inr v)"
| "py_getitem PNone k = Inl TypeError"
| "py_getitem (PStr s) k = Inl TypeError"
| "py_getitem (PList xs) k = Inl TypeError"

text \<open>
  \<^verbatim>\<open>k in x\<close> with a string \<open>k\<close>: key membership for a dict, element membership for a list,
  substring test for a \<^verbatim>\<open>str\<close>, \<^verbatim>\<open>TypeError\<close> for \<^verbatim>\<open>None\<close> (not iterable).
\<close>

fun py_contains :: "string \<Rightarrow> pyval \<Rightarrow> exn + bool" where
  "py_contains k (PDict d) = Inr (map_of d k \<noteq> None)"
| "py_contains k (PList xs) = Inr (List.member xs (PStr k))"
| "py_contains k (PStr s) = Inr (sublist k s)"
| "py_contains k PNone = Inl TypeError"

text \<open>
  \<^verbatim>\<open>for item in x\<close>: the elements of a list, the keys of a dict, the characters of a
  \<^verbatim>\<open>str\<close>; \<^verbatim>\<open>None\<close> is not iterable.
\<close>

fun py_iter :: "pyval \<Rightarrow> exn + pyval list" where
  "py_iter (PList xs) = Inr xs"
| "py_iter (PDict d) = Inr (map (\<lambda>kv. PStr (fst kv)) d)"
| "py_iter (PStr s) = Inr (map (\<lambda>c. PStr [c]) s)"
| "py_iter PNone = Inl TypeError"

subsection \<open>Decimal text: \<^verbatim>\<open>str(n)\<close> and \<^verbatim>\<open>int(s)\<close>\<close>

definition digit_char :: "nat \<Rightarrow> char" where
  "digit_char d = char_of (48 + d)"

function digits :: "nat \<Rightarrow> string" where
  "digits n = (if n < 10 then [digit_char n] else digits (n div 10) @ [digit_char (n mod 10)])"
  by pat_completeness auto
termination
  by (relation "measure id") auto

declare digits.simps [simp del]

text \<open>\<^verbatim>\<open>str(i)\<close> of an \<^verbatim>\<open>int\<close>.\<close>

definition str_int :: "int \<Rightarrow> string" where
  "str_int i = (if i < 0 then CHR ''-'' # digits (nat (- i)) else digits (nat i))"

definition is_digit :: "char \<Rightarrow> bool" where
  "is_digit c = (48 \<le> (of_char c :: nat) \<and> (of_char c :: nat) \<le> 57)"

definition digit_val :: "char \<Rightarrow> nat" where
  "digit_val c = of_char c - 48"

text \<open>
  The whitespace that \<^verbatim>\<open>int(s)\<close> skips around the literal, within ASCII: tab, line feed,
  vertical tab, form feed, carriage return, the four separators \<^verbatim>\<open>0x1c\<close> to \<^verbatim>\<open>0x1f\<close>,
  and space. Text outside ASCII (other Unicode spaces and digits) is outside the model.
\<close>

definition is_space :: "char \<Rightarrow> bool" where
  "is_space c = ((9 \<le> (of_char c :: nat) \<and> (of_char c :: nat) \<le> 13)
                 \<or> (28 \<le> (of_char c :: nat) \<and> (of_char c :: nat) \<le> 32))"

definition strip :: "string \<Rightarrow> string" where
  "strip s = rev (dropWhile is_space (rev (dropWhile is_space s)))"

text \<open>
  The digits of an integer literal as \<^verbatim>\<open>int(s)\<close> reads them in base ten: at least one
  digit, and single underscores only between two digits. \<open>acc\<close> is the value read so far and
  \<open>prev\<close> says that the previous character was a digit.
\<close>

fun int_digits :: "nat \<Rightarrow> bool \<Rightarrow> string \<Rightarrow> nat option" where
  "int_digits acc prev [] = (if prev then Some acc else None)"
| "int_digits acc prev (c # cs) =
     (if is_digit c then int_digits (10 * acc + digit_val c) True cs
      else if c = CHR ''_'' \<and> prev then int_digits acc False cs
      else None)"

text \<open>
  \<^verbatim>\<open>int(s)\<close> of a \<^verbatim>\<open>str\<close>: surrounding whitespace is dropped, one sign is allowed, the rest
  is digits; \<open>None\<close> stands for the \<^verbatim>\<open>ValueError\<close>.
\<close>

definition int_of_str :: "string \<Rightarrow> int option" where
  "int_of_str s =
     (case strip s of
        [] \<Rightarrow> None
      | c # cs \<Rightarrow>
          if c = CHR ''-'' then map_option (\<lambda>n. - int n) (int_digits 0 False cs)
          else if c = CHR ''+'' then map_option int (int_digits 0 False cs)
          else map_option int (int_digits 0 False (c # cs)))"

text \<open>\<^verbatim>\<open>int(x)\<close> of a parsed value: only a \<^verbatim>\<open>str\<close> converts.\<close>

fun py_int :: "pyval \<Rightarrow> exn + int" where
  "py_int (PStr s) = (case int_of_str s of None \<Rightarrow> Inl ValueError | Some i \<Rightarrow> Inr i)"
| "py_int PNone = Inl TypeError"
| "py_int (PList xs) = Inl TypeError"
| "py_int (PDict d) = Inl TypeError"

text \<open>
  \<^verbatim>\<open>int(x)\<close> of a \<^verbatim>\<open>float\<close> truncates towards zero. A float is modelled by the rational it
  denotes; the only float arithmetic of the component is scaling by 256, which is exact.
\<close>

definition py_int_float :: "rat \<Rightarrow> int" where
  "py_int_float x = (if 0 \<le> x then \<lfloor>x\<rfloor> else \<lceil>x\<rceil>)"

section \<open>The entity\<close>

text \<open>
  Modelled from the spec: the playback-state constants \<^verbatim>\<open>STATE_OFF\<close>, \<^verbatim>\<open>STATE_PLAYING\<close>,
  \<^verbatim>\<open>STATE_PAUSED\<close>, \<^verbatim>\<open>STATE_UNKNOWN\<close> and \<^verbatim>\<open>STATE_IDLE\<close> are imported from the host
  platform (\<^verbatim>\<open>homeassistant.const\<close>), whose source is not part of the repository. The spec
  describes them as the members of one enumeration, so they are the constructors of a
  datatype: pairwise distinct, and nothing else is known about them.
\<close>

datatype ha_state = STATE_OFF | STATE_PLAYING | STATE_PAUSED | STATE_UNKNOWN | STATE_IDLE

text \<open>
  The attribute \<^verbatim>\<open>_state\<close> holds \<^verbatim>\<open>None\<close> (the constructor of \<^verbatim>\<open>src/__init__.py\<close>), the
  empty dict \<^verbatim>\<open>{}\<close> (the constructor of \<^verbatim>\<open>media_player.py\<close>) or one of the constants.
\<close>

datatype state_attr = StateNone | StateEmptyDict | State ha_state

text \<open>
  The attributes of \<^verbatim>\<open>VlcServer\<close>, \<open>self_x\<close> for \<^verbatim>\<open>self._x\<close>. An attribute that holds
  \<^verbatim>\<open>None\<close> or a value of one type is an \<open>option\<close>. \<open>self_port\<close> is the text that
  \<^verbatim>\<open>"{}".format\<close> renders for the configured port. The record serves both revisions:
  \<open>self_currentplaylist\<close> exists in \<^verbatim>\<open>media_player.py\<close> only (always \<^verbatim>\<open>None\<close>, never
  read), and \<open>self_status\<close> is set by the constructor in \<^verbatim>\<open>src/__init__.py\<close> only; in
  \<^verbatim>\<open>media_player.py\<close> its first assignment is the one of \<^verbatim>\<open>update\<close>, before any read.
\<close>

record VlcServer =
  self_status :: pyval
  self_name :: string
  self_port :: string
  self_host :: string
  self_username :: "string option"
  self_password :: "string option"
  self_volume :: "rat option"
  self_muted :: "bool option"
  self_state :: state_attr
  self_media_position :: "int option"
  self_media_duration :: "int option"
  self_media_metadata :: pyval
  self_currentplaylist :: "unit option"

text \<open>\<^verbatim>\<open>VlcServer.__init__\<close> of \<^verbatim>\<open>src/__init__.py\<close>.\<close>

definition init :: "string \<Rightarrow> string \<Rightarrow> string \<Rightarrow> string option \<Rightarrow> string option \<Rightarrow> VlcServer" where
  "init name host port username password =
     \<lparr> self_status = PDict [],
       self_name = name,
       self_port = port,
       self_host = host,
       self_username = username,
       self_password = password,
       self_volume = None,
       self_muted = None,
       self_state = StateNone,
       self_media_position = None,
       self_media_duration = None,
       self_media_metadata = PDict [],
       self_currentplaylist = None \<rparr>"

section \<open>The status fetcher\<close>

text \<open>
  The world outside: what \<^verbatim>\<open>requests.get(url, auth=(username, password))\<close> does. It raises
  (connection refused, timeout, ...) or returns a response with a status code and a body;
  of the body only the result of \<^verbatim>\<open>xmltodict.parse(req.text, process_namespaces=True)\<close>
  matters, which raises on malformed XML or returns a dict keyed by the document's root
  element.
\<close>

datatype xml_result = ParseRaises | Parsed "(string \<times> pyval) list"

datatype http_result = RequestRaises | Response (status_code: int) (parsed_text: xml_result)

type_synonym requests_get = "string \<Rightarrow> string option \<times> string option \<Rightarrow> http_result"

text \<open>Lines 99 to 104 of \<^verbatim>\<open>src/__init__.py\<close>: the URL of the request.\<close>

definition fetch_url :: "VlcServer \<Rightarrow> string option \<Rightarrow> string" where
  "fetch_url self command =
     (case command of
        None \<Rightarrow> ''http://'' @ self_host self @ '':'' @ self_port self @ ''/requests.status.xml''
      | Some c \<Rightarrow>
          ''http://'' @ self_host self @ '':'' @ self_port self @ ''/requests.status.xml''
            @ ''?command='' @ c)"

text \<open>
  The body of the first \<^verbatim>\<open>try\<close> (lines 109 to 117): \<open>Inl\<close> is an exception raised in it,
  \<open>Inr\<close> the value bound to \<^verbatim>\<open>data\<close>. On a status other than 200 the arguments of the log
  call are evaluated first, and \<^verbatim>\<open>req.status\<close> raises \<^verbatim>\<open>AttributeError\<close> (a response has
  \<^verbatim>\<open>status_code\<close>, no \<^verbatim>\<open>status\<close>), so the \<^verbatim>\<open>return {}\<close> of line 115 is not reached.
\<close>

definition fetch_try :: "http_result \<Rightarrow> exn + pyval" where
  "fetch_try r =
     (case r of
        RequestRaises \<Rightarrow> Inl RequestException
      | Response code body \<Rightarrow>
          if code \<noteq> 200 then Inl AttributeError
          else (case body of
                  ParseRaises \<Rightarrow> Inl ExpatError
                | Parsed doc \<Rightarrow> Inr (case map_of doc ''root'' of None \<Rightarrow> PNone | Some v \<Rightarrow> v)))"

text \<open>
  \<^verbatim>\<open>VlcServer.fetch_data\<close>: the requests made, and the exception raised or the value
  returned. \<^verbatim>\<open>except Exception\<close> (line 119) returns \<^verbatim>\<open>{}\<close>; the second \<^verbatim>\<open>try\<close> only
  returns \<^verbatim>\<open>data\<close>, which raises nothing, so its handler never runs. The parameter
  \<^verbatim>\<open>value\<close> is not used.
\<close>

definition fetch_data :: "requests_get \<Rightarrow> VlcServer \<Rightarrow> string option \<Rightarrow> string list \<times> (exn + pyval)" where
  "fetch_data get self command =
     (let url = fetch_url self command in
      ([url],
       case fetch_try (get url (self_username self, self_password self)) of
         Inl error \<Rightarrow> Inr (PDict [])
       | Inr data \<Rightarrow> Inr data))"

section \<open>The update cycle\<close>

text \<open>
  A statement runs on the entity and leaves it changed, with the exception it raised if any:
  what it assigned before raising stays assigned.
\<close>

type_synonym stmt = "VlcServer \<Rightarrow> exn option \<times> VlcServer"

fun run :: "stmt list \<Rightarrow> stmt" where
  "run [] self = (None, self)"
| "run (c # cs) self =
     (case c self of
        (Some e, self') \<Rightarrow> (Some e, self')
      | (None, self') \<Rightarrow> run cs self')"

text \<open>The loop of lines 137 to 139 over the categories.\<close>

fun scan_categories :: "pyval list \<Rightarrow> stmt" where
  "scan_categories [] self = (None, self)"
| "scan_categories (info # rest) self =
     (case py_get info ''@name'' of
        Inl e \<Rightarrow> (Some e, self)
      | Inr n \<Rightarrow>
          if n = PStr ''meta'' then
            (case py_getitem info ''info'' of
               Inl e \<Rightarrow> (Some e, self)
             | Inr m \<Rightarrow> scan_categories rest (self\<lparr>self_media_metadata := m\<rparr>))
          else scan_categories rest self)"

text \<open>
  Lines 135 to 141. The membership test stands outside the \<^verbatim>\<open>try\<close>; whatever the block
  raises is dropped by \<^verbatim>\<open>except: pass\<close>, and the assignments made before stay.
\<close>

definition update_metadata :: stmt where
  "update_metadata self =
     (case py_contains ''information'' (self_status self) of
        Inl e \<Rightarrow> (Some e, self)
      | Inr present \<Rightarrow>
          if present then
            (case py_getitem (self_status self) ''information'' of
               Inl e \<Rightarrow> (None, self)
             | Inr information \<Rightarrow>
                 (case py_getitem information ''category'' of
                    Inl e \<Rightarrow> (None, self)
                  | Inr category \<Rightarrow>
                      (case py_iter category of
                         Inl e \<Rightarrow> (None, self)
                       | Inr infos \<Rightarrow> (None, snd (scan_categories infos self)))))
          else (None, self))"

text \<open>Lines 143 to 148 of \<^verbatim>\<open>src/__init__.py\<close>.\<close>

definition update_state :: stmt where
  "update_state self =
     (case py_get (self_status self) ''state'' of
        Inl e \<Rightarrow> (Some e, self)
      | Inr st \<Rightarrow>
          if st = PStr ''playing'' then (None, self\<lparr>self_state := State STATE_PLAYING\<rparr>)
          else if st = PStr ''paused'' then (None, self\<lparr>self_state := State STATE_PAUSED\<rparr>)
          else (None, self\<lparr>self_state := State STATE_IDLE\<rparr>))"

text \<open>\<^verbatim>\<open>int(status.get(key))\<close>.\<close>

definition int_field :: "pyval \<Rightarrow> string \<Rightarrow> exn + int" where
  "int_field status key = (case py_get status key of Inl e \<Rightarrow> Inl e | Inr v \<Rightarrow> py_int v)"

text \<open>Lines 150 and 151.\<close>

definition update_position :: stmt where
  "update_position self =
     (case int_field (self_status self) ''time'' of
        Inl e \<Rightarrow> (Some e, self)
      | Inr i \<Rightarrow> (None, self\<lparr>self_media_position := Some i\<rparr>))"

definition update_duration :: stmt where
  "update_duration self =
     (case int_field (self_status self) ''length'' of
        Inl e \<Rightarrow> (Some e, self)
      | Inr i \<Rightarrow> (None, self\<lparr>self_media_duration := Some i\<rparr>))"

text \<open>
  Lines 153 and 154. \<^verbatim>\<open>/\<close> is true division: the quotient of an integer by 256 is a float,
  exact while the integer has at most 53 significant bits.
\<close>

definition update_volume :: stmt where
  "update_volume self =
     (case int_field (self_status self) ''volume'' of
        Inl e \<Rightarrow> (Some e, self)
      | Inr i \<Rightarrow> (None, self\<lparr>self_volume := Some (of_int i / 256)\<rparr>))"

definition update_muted :: stmt where
  "update_muted self =
     (case int_field (self_status self) ''volume'' of
        Inl e \<Rightarrow> (Some e, self)
      | Inr i \<Rightarrow> (None, self\<lparr>self_muted := Some (i = 0)\<rparr>))"

text \<open>
  \<^verbatim>\<open>VlcServer.update\<close> of \<^verbatim>\<open>src/__init__.py\<close>: the requests made, the exception that
  escapes if any, and the entity afterwards. \<^verbatim>\<open>status\<close> and \<^verbatim>\<open>self._status\<close> are the same
  object, which nothing changes.
\<close>

definition update :: "requests_get \<Rightarrow> VlcServer \<Rightarrow> string list \<times> exn option \<times> VlcServer" where
  "update get self =
     (case fetch_data get self None of
        (reqs, Inl e) \<Rightarrow> (reqs, Some e, self)
      | (reqs, Inr status) \<Rightarrow>
          (reqs,
           run [update_metadata, update_state, update_position, update_duration,
                update_volume, update_muted]
             (self\<lparr>self_status := status\<rparr>)))"

section \<open>Properties and commands of \<^verbatim>\<open>src/__init__.py\<close>\<close>

definition name :: "VlcServer \<Rightarrow> string" where
  "name self = self_name self"

definition state :: "VlcServer \<Rightarrow> state_attr" where
  "state self = self_state self"

text \<open>
  \<^verbatim>\<open>self._media.metadata\<close>, the first expression of the \<^verbatim>\<open>try\<close> block of
  \<^verbatim>\<open>media_title\<close> (line 173): neither the class nor its base assigns an attribute
  \<^verbatim>\<open>_media\<close> (the attribute of the constructor is \<^verbatim>\<open>_media_metadata\<close>), so the lookup
  raises \<^verbatim>\<open>AttributeError\<close>.
\<close>

definition self_media_dot_metadata :: "VlcServer \<Rightarrow> exn + pyval" where
  "self_media_dot_metadata self = Inl AttributeError"

text \<open>
  The loop of \<^verbatim>\<open>media_title\<close> (lines 174 to 178) on the locals \<^verbatim>\<open>title\<close> (\<open>None\<close> while
  unbound) and \<^verbatim>\<open>filename\<close>: the exception raised if any, and the locals at that point.
\<close>

fun title_loop :: "pyval list \<Rightarrow> pyval option \<times> pyval \<Rightarrow> exn option \<times> pyval option \<times> pyval" where
  "title_loop [] (title, filename) = (None, title, filename)"
| "title_loop (item # rest) (title, filename) =
     (case py_getitem item ''@name'' of
        Inl e \<Rightarrow> (Some e, title, filename)
      | Inr n \<Rightarrow>
          (case (if n = PStr ''title'' then map_sum id Some (py_getitem item ''#text'')
                 else Inr title) of
             Inl e \<Rightarrow> (Some e, title, filename)
           | Inr title' \<Rightarrow>
               if n = PStr ''filename'' then
                 (case py_getitem item ''#text'' of
                    Inl e \<Rightarrow> (Some e, title', filename)
                  | Inr f \<Rightarrow> title_loop rest (title', f))
               else title_loop rest (title', filename)))"

text \<open>
  \<^verbatim>\<open>media_title\<close>: the bare \<^verbatim>\<open>except\<close> returns \<^verbatim>\<open>filename\<close>, also when \<^verbatim>\<open>return title\<close>
  finds the local unbound. As the first expression of the block raises, the loop never
  runs and \<^verbatim>\<open>filename\<close> is still the string \<^verbatim>\<open>"None"\<close>.
\<close>

definition media_title :: "VlcServer \<Rightarrow> pyval" where
  "media_title self =
     (let filename = PStr ''None'' in
      case self_media_dot_metadata self of
        Inl e \<Rightarrow> filename
      | Inr metadata \<Rightarrow>
          (case (if metadata \<noteq> PDict [] then
                   (case py_iter (self_media_metadata self) of
                      Inl e \<Rightarrow> (Some e, None, filename)
                    | Inr items \<Rightarrow> title_loop items (None, filename))
                 else (None, None, filename)) of
             (Some e, title, filename') \<Rightarrow> filename'
           | (None, None, filename') \<Rightarrow> filename'
           | (None, Some title, filename') \<Rightarrow> title))"

text \<open>
  The loop of \<^verbatim>\<open>media_artist\<close> (lines 188 to 190); \<open>artist\<close> is the local variable, \<open>None\<close>
  while it is unbound.
\<close>

fun artist_loop :: "pyval list \<Rightarrow> pyval option \<Rightarrow> exn + pyval option" where
  "artist_loop [] artist = Inr artist"
| "artist_loop (item # rest) artist =
     (case py_getitem item ''@name'' of
        Inl e \<Rightarrow> Inl e
      | Inr n \<Rightarrow>
          if n = PStr ''showName'' then
            (case py_getitem item ''#text'' of
               Inl e \<Rightarrow> Inl e
             | Inr t \<Rightarrow> artist_loop rest (Some t))
          else artist_loop rest artist)"

text \<open>The \<^verbatim>\<open>try\<close> block of \<^verbatim>\<open>media_artist\<close>; reading the unbound local raises.\<close>

definition media_artist_try :: "VlcServer \<Rightarrow> exn + pyval" where
  "media_artist_try self =
     (case (if self_media_metadata self \<noteq> PDict [] then
              (case py_iter (self_media_metadata self) of
                 Inl e \<Rightarrow> Inl e
               | Inr items \<Rightarrow> artist_loop items None)
            else Inr None) of
        Inl e \<Rightarrow> Inl e
      | Inr None \<Rightarrow> Inl UnboundLocalError
      | Inr (Some artist) \<Rightarrow> Inr artist)"

definition media_artist :: "VlcServer \<Rightarrow> pyval" where
  "media_artist self =
     (case media_artist_try self of
        Inl e \<Rightarrow> PStr ''None''
      | Inr artist \<Rightarrow> artist)"

definition volume_level :: "VlcServer \<Rightarrow> rat option" where
  "volume_level self = self_volume self"

definition is_volume_muted :: "VlcServer \<Rightarrow> bool option" where
  "is_volume_muted self = self_muted self"

definition media_duration :: "VlcServer \<Rightarrow> int option" where
  "media_duration self = self_media_duration self"

definition media_position :: "VlcServer \<Rightarrow> int option" where
  "media_position self = self_media_position self"

text \<open>
  A command calls \<^verbatim>\<open>fetch_data\<close> and then assigns one attribute; were the call to raise,
  the assignment would not happen. The result is the requests made, the exception that
  escapes if any, and the entity afterwards.
\<close>

definition mute_volume :: "requests_get \<Rightarrow> bool \<Rightarrow> VlcServer \<Rightarrow> string list \<times> exn option \<times> VlcServer" where
  "mute_volume get mute self =
     (let mute_numeric = (if mute then ''0'' else ''256'') in
      case fetch_data get self (Some (''volume&val='' @ mute_numeric)) of
        (reqs, Inl e) \<Rightarrow> (reqs, Some e, self)
      | (reqs, Inr data) \<Rightarrow> (reqs, None, self\<lparr>self_muted := Some mute\<rparr>))"

text \<open>\<open>volume\<close> is the float the platform passes, in the range 0 to 1.\<close>

definition set_volume_level :: "requests_get \<Rightarrow> rat \<Rightarrow> VlcServer \<Rightarrow> string list \<times> exn option \<times> VlcServer" where
  "set_volume_level get volume self =
     (let new_volume = str_int (py_int_float (volume * 256)) in
      case fetch_data get self (Some (''volume&val='' @ new_volume)) of
        (reqs, Inl e) \<Rightarrow> (reqs, Some e, self)
      | (reqs, Inr data) \<Rightarrow> (reqs, None, self\<lparr>self_volume := Some volume\<rparr>))"

definition media_play :: "requests_get \<Rightarrow> VlcServer \<Rightarrow> string list \<times> exn option \<times> VlcServer" where
  "media_play get self =
     (case fetch_data get self (Some ''pl_pause'') of
        (reqs, Inl e) \<Rightarrow> (reqs, Some e, self)
      | (reqs, Inr data) \<Rightarrow> (reqs, None, self\<lparr>self_state := State STATE_PLAYING\<rparr>))"

definition media_pause :: "requests_get \<Rightarrow> VlcServer \<Rightarrow> string list \<times> exn option \<times> VlcServer" where
  "media_pause get self =
     (case fetch_data get self (Some ''pl_pause'') of
        (reqs, Inl e) \<Rightarrow> (reqs, Some e, self)
      | (reqs, Inr data) \<Rightarrow> (reqs, None, self\<lparr>self_state := State STATE_PAUSED\<rparr>))"

definition media_stop :: "requests_get \<Rightarrow> VlcServer \<Rightarrow> string list \<times> exn option \<times> VlcServer" where
  "media_stop get self =
     (case fetch_data get self (Some ''pl_stop'') of
        (reqs, Inl e) \<Rightarrow> (reqs, Some e, self)
      | (reqs, Inr data) \<Rightarrow> (reqs, None, self\<lparr>self_state := State STATE_IDLE\<rparr>))"

section \<open>The revision of \<^verbatim>\<open>media_player.py\<close>\<close>

text \<open>
  \<^verbatim>\<open>VlcServer.__init__\<close> of \<^verbatim>\<open>media_player.py\<close>. The port is the integer that the
  platform's \<^verbatim>\<open>cv.port\<close> validated; \<open>self_port\<close> keeps the text \<^verbatim>\<open>"{}".format\<close> renders
  for it. The argument \<^verbatim>\<open>hass\<close> is not used.
\<close>

definition init_async :: "string \<Rightarrow> string \<Rightarrow> int \<Rightarrow> string option \<Rightarrow> string option \<Rightarrow> VlcServer" where
  "init_async name' host port username password =
     \<lparr> self_status = PDict [],
       self_name = name',
       self_port = str_int port,
       self_host = host,
       self_username = username,
       self_password = password,
       self_volume = None,
       self_muted = None,
       self_state = StateEmptyDict,
       self_media_position = None,
       self_media_duration = None,
       self_media_metadata = PDict [],
       self_currentplaylist = None \<rparr>"

text \<open>Lines 124 to 129 of \<^verbatim>\<open>media_player.py\<close>.\<close>

definition fetch_url_async :: "VlcServer \<Rightarrow> string option \<Rightarrow> string" where
  "fetch_url_async self command =
     (case command of
        None \<Rightarrow> ''http://'' @ self_host self @ '':'' @ self_port self @ ''/requests/status.xml''
      | Some c \<Rightarrow>
          ''http://'' @ self_host self @ '':'' @ self_port self @ ''/requests/status.xml''
            @ ''?command='' @ c)"

text \<open>
  The body of the coroutine \<^verbatim>\<open>fetch_data\<close>, run when it is awaited: lines 133 to 153 are
  those of the other revision.
\<close>

definition fetch_data_async :: "requests_get \<Rightarrow> VlcServer \<Rightarrow> string option \<Rightarrow> string list \<times> (exn + pyval)" where
  "fetch_data_async get self command =
     (let url = fetch_url_async self command in
      ([url],
       case fetch_try (get url (self_username self, self_password self)) of
         Inl error \<Rightarrow> Inr (PDict [])
       | Inr data \<Rightarrow> Inr data))"

text \<open>Lines 168 to 173 of \<^verbatim>\<open>media_player.py\<close>: the chain has no \<^verbatim>\<open>else\<close>.\<close>

definition update_state_async :: stmt where
  "update_state_async self =
     (case py_get (self_status self) ''state'' of
        Inl e \<Rightarrow> (Some e, self)
      | Inr st \<Rightarrow>
          if st = PStr ''playing'' then (None, self\<lparr>self_state := State STATE_PLAYING\<rparr>)
          else if st = PStr ''paused'' then (None, self\<lparr>self_state := State STATE_PAUSED\<rparr>)
          else if st = PStr ''stopped'' then (None, self\<lparr>self_state := State STATE_IDLE\<rparr>)
          else (None, self))"

text \<open>Line 175: the position is read from the key \<^verbatim>\<open>position\<close>.\<close>

definition update_position_async :: stmt where
  "update_position_async self =
     (case int_field (self_status self) ''position'' of
        Inl e \<Rightarrow> (Some e, self)
      | Inr i \<Rightarrow> (None, self\<lparr>self_media_position := Some i\<rparr>))"

definition update_async :: "requests_get \<Rightarrow> VlcServer \<Rightarrow> string list \<times> exn option \<times> VlcServer" where
  "update_async get self =
     (case fetch_data_async get self None of
        (reqs, Inl e) \<Rightarrow> (reqs, Some e, self)
      | (reqs, Inr status) \<Rightarrow>
          (reqs,
           run [update_metadata, update_state_async, update_position_async, update_duration,
                update_volume, update_muted]
             (self\<lparr>self_status := status\<rparr>)))"

definition state_async :: "VlcServer \<Rightarrow> state_attr" where
  "state_async self = self_state self"

text \<open>
  \<^verbatim>\<open>self._state.get(key, None)\<close>: the empty dict of the constructor has the method and not
  the key; \<^verbatim>\<open>None\<close> and a state constant (a \<^verbatim>\<open>str\<close>) have no such method.
\<close>

fun state_get :: "state_attr \<Rightarrow> string \<Rightarrow> exn + pyval" where
  "state_get StateEmptyDict key = Inr PNone"
| "state_get StateNone key = Inl AttributeError"
| "state_get (State c) key = Inl AttributeError"

definition media_title_async :: "VlcServer \<Rightarrow> exn + pyval" where
  "media_title_async self = state_get (self_state self) ''title''"

definition media_artist_async :: "VlcServer \<Rightarrow> exn + pyval" where
  "media_artist_async self = state_get (self_state self) ''artist''"

text \<open>
  The commands of \<^verbatim>\<open>media_player.py\<close> are plain methods that call the coroutine function
  \<^verbatim>\<open>fetch_data\<close> without awaiting it: the call builds a coroutine object whose body never
  runs, so no request is made, and the assignment follows.
\<close>

definition media_play_async :: "VlcServer \<Rightarrow> string list \<times> exn option \<times> VlcServer" where
  "media_play_async self = ([], None, self\<lparr>self_state := State STATE_PLAYING\<rparr>)"

definition media_pause_async :: "VlcServer \<Rightarrow> string list \<times> exn option \<times> VlcServer" where
  "media_pause_async self = ([], None, self\<lparr>self_state := State STATE_PAUSED\<rparr>)"

definition media_stop_async :: "VlcServer \<Rightarrow> string list \<times> exn option \<times> VlcServer" where
  "media_stop_async self = ([], None, self\<lparr>self_state := State STATE_IDLE\<rparr>)"

section \<open>Predicates of the specification and concrete inputs\<close>

text \<open>
  The failures the specification lists for a request: the HTTP library raises (a network
  failure), the response has a status other than 200, or the body is not well-formed XML.
\<close>

definition failed :: "http_result \<Rightarrow> bool" where
  "failed r =
     (case r of
        RequestRaises \<Rightarrow> True
      | Response code body \<Rightarrow> code \<noteq> 200 \<or> body = ParseRaises)"

text \<open>
  The specification's invariant on the normalized state, for a raw volume \<open>raw\<close>: the
  volume is \<open>raw / 256\<close> and the entity is muted exactly when \<open>raw\<close> is 0.
\<close>

definition volume_invariant :: "int \<Rightarrow> VlcServer \<Rightarrow> bool" where
  "volume_invariant raw self =
     (self_volume self = Some (of_int raw / 256) \<and> self_muted self = Some (raw = 0))"

text \<open>Its form on the normalized state alone: muted exactly when the volume is 0.\<close>

definition muted_iff_silent :: "VlcServer \<Rightarrow> bool" where
  "muted_iff_silent self =
     (case self_volume self of
        None \<Rightarrow> False
      | Some v \<Rightarrow> self_muted self = Some (v = 0))"

text \<open>
  The specification's state mapping, applied to what \<^verbatim>\<open>status.get("state")\<close> gives:
  \<^verbatim>\<open>"playing"\<close> is Playing, \<^verbatim>\<open>"paused"\<close> is Paused, and anything else, \<^verbatim>\<open>None\<close> for an
  absent key included, is Idle.
\<close>

definition spec_state :: "pyval \<Rightarrow> ha_state" where
  "spec_state raw =
     (if raw = PStr ''playing'' then STATE_PLAYING
      else if raw = PStr ''paused'' then STATE_PAUSED
      else STATE_IDLE)"

text \<open>\<^verbatim>\<open>round(x)\<close> as the specification writes it: the nearest integer, a tie going to the even one.\<close>

definition spec_round :: "rat \<Rightarrow> int" where
  "spec_round x =
     (if x - of_int \<lfloor>x\<rfloor> < 1 / 2 then \<lfloor>x\<rfloor>
      else if 1 / 2 < x - of_int \<lfloor>x\<rfloor> then \<lfloor>x\<rfloor> + 1
      else if even \<lfloor>x\<rfloor> then \<lfloor>x\<rfloor>
      else \<lfloor>x\<rfloor> + 1)"

text \<open>The command the specification gives for \<^verbatim>\<open>set_volume(level)\<close>.\<close>

definition spec_volume_command :: "rat \<Rightarrow> string" where
  "spec_volume_command level = ''volume&val='' @ str_int (spec_round (level * 256))"

text \<open>An entry of a category or info list that is a mapping with \<^verbatim>\<open>@name\<close> equal to \<open>n\<close>.\<close>

definition named :: "string \<Rightarrow> pyval \<Rightarrow> bool" where
  "named n entry =
     (case entry of
        PDict e \<Rightarrow> map_of e ''@name'' = Some (PStr n)
      | PNone \<Rightarrow> False
      | PStr s \<Rightarrow> False
      | PList xs \<Rightarrow> False)"

text \<open>
  The \<^verbatim>\<open>information.category\<close> list of a status mapping; empty when the status has no
  \<^verbatim>\<open>information\<close> mapping or that has no \<^verbatim>\<open>category\<close> list.
\<close>

definition categories :: "(string \<times> pyval) list \<Rightarrow> pyval list" where
  "categories d =
     (case map_of d ''information'' of
        Some (PDict information) \<Rightarrow>
          (case map_of information ''category'' of
             Some (PList cats) \<Rightarrow> cats
           | _ \<Rightarrow> [])
      | _ \<Rightarrow> [])"


text \<open>A server that cannot be reached: every request raises.\<close>

definition unreachable :: requests_get where
  "unreachable = (\<lambda>url auth. RequestRaises)"

text \<open>A server that refuses every request with status 404.\<close>

definition not_found :: requests_get where
  "not_found = (\<lambda>url auth. Response 404 (Parsed [(''html'', PStr ''Not Found'')]))"

text \<open>
  A server that answers every request with status 200 and a document whose root element
  is named \<open>tag\<close> and parses to \<open>content\<close>.
\<close>

definition serve :: "string \<Rightarrow> pyval \<Rightarrow> requests_get" where
  "serve tag content = (\<lambda>url auth. Response 200 (Parsed [(tag, content)]))"

text \<open>Entities as the two constructors build them.\<close>

definition living_room :: VlcServer where
  "living_room = init ''VLC Remote'' ''localhost'' ''8080'' (Some []) (Some [])"

definition living_room_async :: VlcServer where
  "living_room_async = init_async ''VLC Remote'' ''localhost'' 8080 None (Some ''secret'')"

text \<open>The metadata categories of the specification's example, and a second category.\<close>

definition title_item :: pyval where
  "title_item = PDict [(''@name'', PStr ''title''), (''#text'', PStr ''Song A'')]"

definition artist_item :: pyval where
  "artist_item = PDict [(''@name'', PStr ''artist''), (''#text'', PStr ''Artist B'')]"

definition song_meta :: "(string \<times> pyval) list" where
  "song_meta = [(''@name'', PStr ''meta''), (''info'', PList [title_item, artist_item])]"

definition codec_category :: pyval where
  "codec_category =
     PDict [(''@name'', PStr ''Stream 0''),
            (''info'', PList [PDict [(''@name'', PStr ''Codec''), (''#text'', PStr ''mp3'')]])]"

definition song_categories :: pyval where
  "song_categories = PList [PDict song_meta, codec_category]"

definition song_information :: "(string \<times> pyval) list" where
  "song_information = [(''category'', song_categories)]"

text \<open>A complete status document with these categories, at volume \<open>raw\<close>.\<close>

definition song_fields :: "int \<Rightarrow> (string \<times> pyval) list" where
  "song_fields raw =
     [(''state'', PStr ''playing''),
      (''time'', PStr ''12''),
      (''position'', PStr ''0''),
      (''length'', PStr ''300''),
      (''volume'', PStr (str_int raw)),
      (''information'', PDict song_information)]"

definition song_status :: "int \<Rightarrow> pyval" where
  "song_status raw = PDict (song_fields raw)"

text \<open>The entity of \<^verbatim>\<open>src/__init__.py\<close> after a poll that found this status at volume 128.\<close>

definition playing_at_half :: VlcServer where
  "playing_at_half = snd (snd (update (serve ''root'' (song_status 128)) living_room))"

text \<open>The same categories with the artist under the name \<^verbatim>\<open>showName\<close>.\<close>

definition show_item :: "(string \<times> pyval) list" where
  "show_item = [(''@name'', PStr ''showName''), (''#text'', PStr ''Artist B'')]"

definition show_meta :: "(string \<times> pyval) list" where
  "show_meta = [(''@name'', PStr ''meta''), (''info'', PList [title_item, PDict show_item])]"

definition stream_category :: pyval where
  "stream_category = PDict [(''@name'', PStr ''Stream 0'')]"

definition show_information :: "(string \<times> pyval) list" where
  "show_information = [(''category'', PList [PDict show_meta, stream_category])]"

definition show_fields :: "(string \<times> pyval) list" where
  "show_fields =
     [(''state'', PStr ''playing''),
      (''time'', PStr ''12''),
      (''length'', PStr ''300''),
      (''volume'', PStr ''256''),
      (''information'', PDict show_information)]"

definition show_status :: pyval where
  "show_status = PDict show_fields"



text \<open>The entity of \<^verbatim>\<open>src/__init__.py\<close> after a poll that found \<open>show_status\<close>.\<close>

definition after_show :: VlcServer where
  "after_show = snd (snd (update (serve ''root'' show_status) living_room))"

text \<open>A status without metadata, and one that lacks the numeric fields too.\<close>

definition bare_fields :: "(string \<times> pyval) list" where
  "bare_fields =
     [(''state'', PStr ''stopped''),
      (''time'', PStr ''0''),
      (''position'', PStr ''0''),
      (''length'', PStr ''0''),
      (''volume'', PStr ''0'')]"

definition bare_status :: pyval where
  "bare_status = PDict bare_fields"

definition state_only_status :: pyval where
  "state_only_status = PDict [(''state'', PStr ''playing'')]"

text \<open>
  A status as VLC reports it during playback: \<^verbatim>\<open>time\<close> and \<^verbatim>\<open>length\<close> in seconds, and
  \<^verbatim>\<open>position\<close> as the fraction of the length played.
\<close>

definition fraction_status :: pyval where
  "fraction_status =
     PDict [(''state'', PStr ''playing''),
            (''time'', PStr ''75''),
            (''position'', PStr ''0.25''),
            (''length'', PStr ''300''),
            (''volume'', PStr ''256'')]"

text \<open>A complete status whose state is none of the three known strings.\<close>

definition opening_status :: pyval where
  "opening_status =
     PDict [(''state'', PStr ''opening''),
            (''time'', PStr ''0''),
            (''position'', PStr ''0''),
            (''length'', PStr ''0''),
            (''volume'', PStr ''256'')]"

section \<open>Decimal text round trip\<close>

lemma of_char_digit_char: "d < 10 \<Longrightarrow> (of_char (digit_char d) :: nat) = 48 + d"
  by (simp add: digit_char_def)

lemma is_digit_digit_char: "d < 10 \<Longrightarrow> is_digit (digit_char d)"
  by (simp add: is_digit_def of_char_digit_char)

lemma digit_val_digit_char: "d < 10 \<Longrightarrow> digit_val (digit_char d) = d"
  by (simp add: digit_val_def of_char_digit_char)

lemma is_digit_not_space: "is_digit c \<Longrightarrow> \<not> is_space c"
  by (auto simp: is_digit_def is_space_def)

lemma is_digit_not_sign: "is_digit c \<Longrightarrow> c \<noteq> CHR ''-'' \<and> c \<noteq> CHR ''+''"
  by (auto simp: is_digit_def)

lemma digits_all_digit: "c \<in> set (digits n) \<Longrightarrow> is_digit c"
proof (induction n arbitrary: c rule: digits.induct)
  case (1 n)
  show ?case
  proof (cases "n < 10")
    case True
    with "1.prems" show ?thesis
      by (simp add: digits.simps [of n] is_digit_digit_char)
  next
    case False
    with "1.prems" have "c \<in> set (digits (n div 10)) \<or> c = digit_char (n mod 10)"
      by (auto simp: digits.simps [of n])
    with False "1.IH" show ?thesis
      by (auto simp: is_digit_digit_char)
  qed
qed

lemma digits_not_Nil: "digits n \<noteq> []"
  by (simp add: digits.simps [of n])

text \<open>Reading the digits of \<open>n\<close> appends them to the value read so far.\<close>

lemma int_digits_digits:
  "int_digits acc prev (digits n @ cs) = int_digits (acc * 10 ^ length (digits n) + n) True cs"
proof (induction n arbitrary: acc prev cs rule: digits.induct)
  case (1 n)
  show ?case
  proof (cases "n < 10")
    case True
    then show ?thesis
      by (simp add: digits.simps [of n] is_digit_digit_char digit_val_digit_char mult.commute)
  next
    case False
    have d: "digits n = digits (n div 10) @ [digit_char (n mod 10)]"
      using False by (simp add: digits.simps [of n])
    have "int_digits acc prev (digits n @ cs)
          = int_digits acc prev (digits (n div 10) @ (digit_char (n mod 10) # cs))"
      by (simp add: d)
    also have "\<dots> = int_digits (acc * 10 ^ length (digits (n div 10)) + n div 10) True
                        (digit_char (n mod 10) # cs)"
      using False by (rule "1.IH")
    also have "\<dots> = int_digits (10 * (acc * 10 ^ length (digits (n div 10)) + n div 10) + n mod 10)
                        True cs"
      by (simp add: is_digit_digit_char digit_val_digit_char)
    also have "10 * (acc * 10 ^ length (digits (n div 10)) + n div 10) + n mod 10
               = acc * 10 ^ length (digits n) + n"
      by (simp add: d algebra_simps)
    finally show ?thesis .
  qed
qed

lemma int_digits_of_digits: "int_digits 0 False (digits n) = Some n"
  using int_digits_digits [of 0 False n "[]"] by simp

lemma dropWhile_id: "s \<noteq> [] \<Longrightarrow> \<not> P (hd s) \<Longrightarrow> dropWhile P s = s"
  by (cases s) auto

lemma strip_id: "s \<noteq> [] \<Longrightarrow> \<not> is_space (hd s) \<Longrightarrow> \<not> is_space (last s) \<Longrightarrow> strip s = s"
  by (simp add: strip_def dropWhile_id hd_rev)

lemma strip_digits: "strip (digits n) = digits n"
proof (rule strip_id)
  show "digits n \<noteq> []"
    by (rule digits_not_Nil)
  have "is_digit (hd (digits n))"
    by (rule digits_all_digit [of _ n]) (simp add: digits_not_Nil)
  then show "\<not> is_space (hd (digits n))"
    by (rule is_digit_not_space)
  have "is_digit (last (digits n))"
    by (rule digits_all_digit [of _ n]) (simp add: digits_not_Nil)
  then show "\<not> is_space (last (digits n))"
    by (rule is_digit_not_space)
qed

lemma int_of_str_digits: "int_of_str (digits n) = Some (int n)"
proof -
  obtain c cs where s: "digits n = c # cs"
    using digits_not_Nil [of n] by (cases "digits n") auto
  then have "is_digit c"
    using digits_all_digit [of c n] by simp
  then have "c \<noteq> CHR ''-''" "c \<noteq> CHR ''+''"
    using is_digit_not_sign by auto
  moreover have "strip (digits n) = c # cs"
    using strip_digits [of n] s by simp
  moreover have "int_digits 0 False (c # cs) = Some n"
    using int_digits_of_digits [of n] s by simp
  ultimately show ?thesis
    by (simp add: int_of_str_def)
qed

text \<open>\<^verbatim>\<open>int(str(i)) == i\<close> for a natural number \<open>i\<close>.\<close>

lemma int_of_str_str_int: "0 \<le> i \<Longrightarrow> int_of_str (str_int i) = Some i"
  by (simp add: str_int_def int_of_str_digits)

text \<open>Facts that let the simplifier compute decimal text on numerals.\<close>

lemma digit_char_simps:
  "digit_char 0 = CHR ''0''" "digit_char (Suc 0) = CHR ''1''" "digit_char 2 = CHR ''2''"
  "digit_char 3 = CHR ''3''" "digit_char 4 = CHR ''4''" "digit_char 5 = CHR ''5''"
  "digit_char 6 = CHR ''6''" "digit_char 7 = CHR ''7''" "digit_char 8 = CHR ''8''"
  "digit_char 9 = CHR ''9''"
proof -
  have c: "of_char c = (48 + d :: nat) \<Longrightarrow> digit_char d = c" for c d
    unfolding digit_char_def by (metis char_of_char)
  show "digit_char 0 = CHR ''0''" "digit_char (Suc 0) = CHR ''1''" "digit_char 2 = CHR ''2''"
    "digit_char 3 = CHR ''3''" "digit_char 4 = CHR ''4''" "digit_char 5 = CHR ''5''"
    "digit_char 6 = CHR ''6''" "digit_char 7 = CHR ''7''" "digit_char 8 = CHR ''8''"
    "digit_char 9 = CHR ''9''"
    by (rule c, simp)+
qed

lemmas str_int_eval = str_int_def digits.simps digit_char_simps

lemmas int_of_str_eval = int_of_str_def strip_def is_space_def is_digit_def digit_val_def

section \<open>The status fetcher: what it returns\<close>

lemma fetch_data_returns:
  "fetch_data get self command
   = ([fetch_url self command],
      Inr (case fetch_try (get (fetch_url self command) (self_username self, self_password self)) of
             Inl e \<Rightarrow> PDict [] | Inr data \<Rightarrow> data))"
  by (simp add: fetch_data_def split: sum.split)

lemma fetch_data_async_returns:
  "fetch_data_async get self command
   = ([fetch_url_async self command],
      Inr (case fetch_try (get (fetch_url_async self command) (self_username self, self_password self)) of
             Inl e \<Rightarrow> PDict [] | Inr data \<Rightarrow> data))"
  by (simp add: fetch_data_async_def split: sum.split)

text \<open>No exception of the modelled kinds leaves \<^verbatim>\<open>fetch_data\<close>, whatever the server does.\<close>

lemma fetch_data_never_raises: "\<exists>data. snd (fetch_data get self command) = Inr data"
  by (simp add: fetch_data_returns)

lemma fetch_data_async_never_raises: "\<exists>data. snd (fetch_data_async get self command) = Inr data"
  by (simp add: fetch_data_async_returns)

lemma fetch_try_failed: "failed r \<Longrightarrow> \<exists>e. fetch_try r = Inl e"
  by (auto simp: failed_def fetch_try_def split: http_result.splits xml_result.splits)

text \<open>
  Claim C3. When the request fails (the HTTP library raises, the status is not 200, or the
  body does not parse as XML), \<^verbatim>\<open>fetch_data\<close> makes its one request and returns the empty
  mapping; it raises nothing. This holds in both revisions.
\<close>

theorem fetch_data_failure_empty:
  "(failed (get (fetch_url self command) (self_username self, self_password self))
      \<longrightarrow> fetch_data get self command = ([fetch_url self command], Inr (PDict [])))
   \<and> (failed (get (fetch_url_async self command) (self_username self, self_password self))
      \<longrightarrow> fetch_data_async get self command = ([fetch_url_async self command], Inr (PDict [])))"
  using fetch_try_failed
  by (fastforce simp: fetch_data_returns fetch_data_async_returns)

theorem fetch_data_failure_empty_witness:
  "failed (unreachable (fetch_url living_room None) (self_username living_room, self_password living_room))
   \<and> fetch_data unreachable living_room None
       = ([''http://localhost:8080/requests.status.xml''], Inr (PDict []))
   \<and> failed (not_found (fetch_url_async living_room_async (Some ''pl_stop''))
               (self_username living_room_async, self_password living_room_async))
   \<and> fetch_data_async not_found living_room_async (Some ''pl_stop'')
       = ([''http://localhost:8080/requests/status.xml?command=pl_stop''], Inr (PDict []))"
proof -
  have a: "failed (unreachable (fetch_url living_room None)
             (self_username living_room, self_password living_room))"
    by (simp add: failed_def unreachable_def)
  have b: "failed (not_found (fetch_url_async living_room_async (Some ''pl_stop''))
               (self_username living_room_async, self_password living_room_async))"
    by (simp add: failed_def not_found_def)
  have u: "fetch_url living_room None = ''http://localhost:8080/requests.status.xml''"
    by (simp add: fetch_url_def living_room_def init_def)
  have p: "str_int 8080 = ''8080''"
    by (simp add: str_int_eval)
  have v: "fetch_url_async living_room_async (Some ''pl_stop'')
           = ''http://localhost:8080/requests/status.xml?command=pl_stop''"
    by (simp add: fetch_url_async_def living_room_async_def init_async_def p)
  from a b show ?thesis
    using fetch_data_failure_empty [of unreachable living_room None]
      fetch_data_failure_empty [of not_found living_room_async "Some ''pl_stop''"]
    by (simp add: u v)
qed

text \<open>
  A response with status 200 whose document has a \<^verbatim>\<open>root\<close> element is answered with what
  that element parses to.
\<close>

lemma fetch_data_root:
  "get (fetch_url self command) (self_username self, self_password self) = Response 200 (Parsed doc)
   \<Longrightarrow> map_of doc ''root'' = Some v \<Longrightarrow> snd (fetch_data get self command) = Inr v"
  by (simp add: fetch_data_returns fetch_try_def)

text \<open>
  Claim C4. The claim asks for the empty mapping when the parsed document has no \<^verbatim>\<open>root\<close>
  key. The code returns \<^verbatim>\<open>None\<close> there, in both revisions: \<^verbatim>\<open>.get("root")\<close> gives \<^verbatim>\<open>None\<close>
  and \<^verbatim>\<open>return data\<close> hands it on; the handler that would return \<^verbatim>\<open>{}\<close> guards a \<^verbatim>\<open>try\<close>
  that cannot raise. The same happens for an empty \<^verbatim>\<open>root\<close> element.
\<close>

theorem fetch_data_returns_None:
  "snd (fetch_data (serve ''html'' (PStr ''It works'')) living_room None) = Inr PNone
   \<and> snd (fetch_data (serve ''root'' PNone) living_room None) = Inr PNone
   \<and> snd (fetch_data_async (serve ''html'' (PStr ''It works'')) living_room_async None) = Inr PNone"
  by (simp add: fetch_data_returns fetch_data_async_returns fetch_try_def serve_def)

text \<open>The URL of \<^verbatim>\<open>media_player.py\<close> is the one of the VLC interface.\<close>

lemma fetch_url_async_correct:
  "fetch_url_async self None
   = ''http://'' @ self_host self @ '':'' @ self_port self @ ''/requests/status.xml''"
  "fetch_url_async self (Some command)
   = ''http://'' @ self_host self @ '':'' @ self_port self @ ''/requests/status.xml?command='' @ command"
  by (simp_all add: fetch_url_async_def)

text \<open>
  Claim C6. The claim asks for the path \<^verbatim>\<open>/requests/status.xml\<close>. The URL stem of
  \<^verbatim>\<open>src/__init__.py\<close> has a dot in place of the second slash, so that revision requests
  \<^verbatim>\<open>/requests.status.xml\<close>, with and without a command.
\<close>

theorem fetch_url_wrong_path:
  "fetch_url living_room None = ''http://localhost:8080/requests.status.xml''
   \<and> fetch_url living_room None \<noteq> ''http://localhost:8080/requests/status.xml''
   \<and> fetch_url living_room (Some ''pl_pause'')
       = ''http://localhost:8080/requests.status.xml?command=pl_pause''
   \<and> fetch_url living_room (Some ''pl_pause'')
       \<noteq> ''http://localhost:8080/requests/status.xml?command=pl_pause''"
  by (simp add: fetch_url_def living_room_def init_def)

section \<open>Commands\<close>

text \<open>
  Claim C9. Right after a command, with no poll in between, the property the command is
  about reads the value the command assigned: the state after play, pause and stop (both
  revisions), the volume level after set-volume and the mute flag after mute.
\<close>

theorem command_then_read:
  "state (snd (snd (media_play get self))) = State STATE_PLAYING
   \<and> state (snd (snd (media_pause get self))) = State STATE_PAUSED
   \<and> state (snd (snd (media_stop get self))) = State STATE_IDLE
   \<and> volume_level (snd (snd (set_volume_level get volume self))) = Some volume
   \<and> is_volume_muted (snd (snd (mute_volume get mute self))) = Some mute
   \<and> state_async (snd (snd (media_play_async self))) = State STATE_PLAYING
   \<and> state_async (snd (snd (media_pause_async self))) = State STATE_PAUSED
   \<and> state_async (snd (snd (media_stop_async self))) = State STATE_IDLE"
  by (simp add: media_play_def media_pause_def media_stop_def set_volume_level_def
      mute_volume_def media_play_async_def media_pause_async_def media_stop_async_def
      fetch_data_returns state_def volume_level_def is_volume_muted_def state_async_def)

text \<open>
  Claim C10. A command raises nothing and leaves the entity as it was but for one
  attribute: the mute flag for mute, the volume level for set-volume, the playback state
  for play, pause and stop. Position, duration and metadata are among the attributes left
  alone.
\<close>

theorem command_frame:
  "snd (mute_volume get mute self) = (None, self\<lparr>self_muted := Some mute\<rparr>)
   \<and> snd (set_volume_level get volume self) = (None, self\<lparr>self_volume := Some volume\<rparr>)
   \<and> snd (media_play get self) = (None, self\<lparr>self_state := State STATE_PLAYING\<rparr>)
   \<and> snd (media_pause get self) = (None, self\<lparr>self_state := State STATE_PAUSED\<rparr>)
   \<and> snd (media_stop get self) = (None, self\<lparr>self_state := State STATE_IDLE\<rparr>)
   \<and> snd (media_play_async self) = (None, self\<lparr>self_state := State STATE_PLAYING\<rparr>)
   \<and> snd (media_pause_async self) = (None, self\<lparr>self_state := State STATE_PAUSED\<rparr>)
   \<and> snd (media_stop_async self) = (None, self\<lparr>self_state := State STATE_IDLE\<rparr>)"
  by (simp add: media_play_def media_pause_def media_stop_def set_volume_level_def
      mute_volume_def media_play_async_def media_pause_async_def media_stop_async_def
      fetch_data_returns)

section \<open>The update cycle: what each phase leaves\<close>

text \<open>The metadata scan changes no attribute but \<open>self_media_metadata\<close>.\<close>

lemma scan_categories_others:
  "(snd (scan_categories infos self))\<lparr>self_media_metadata := x\<rparr> = self\<lparr>self_media_metadata := x\<rparr>"
  by (induction infos arbitrary: self) (simp_all split: sum.splits)

lemma scan_categories_frame:
  "snd (scan_categories infos self)
   = self\<lparr>self_media_metadata := self_media_metadata (snd (scan_categories infos self))\<rparr>"
proof -
  have "snd (scan_categories infos self)
        = (snd (scan_categories infos self))
            \<lparr>self_media_metadata := self_media_metadata (snd (scan_categories infos self))\<rparr>"
    by simp
  then show ?thesis
    by (simp only: scan_categories_others)
qed

lemma update_metadata_others:
  "self_status self = PDict d \<Longrightarrow>
   fst (update_metadata self) = None
   \<and> (snd (update_metadata self))\<lparr>self_media_metadata := x\<rparr> = self\<lparr>self_media_metadata := x\<rparr>"
  by (simp add: update_metadata_def scan_categories_others split: sum.splits)

lemma update_metadata_frame:
  assumes "self_status self = PDict d"
  shows "update_metadata self
         = (None, self\<lparr>self_media_metadata := self_media_metadata (snd (update_metadata self))\<rparr>)"
proof -
  have "snd (update_metadata self)
        = (snd (update_metadata self))
            \<lparr>self_media_metadata := self_media_metadata (snd (update_metadata self))\<rparr>"
    by simp
  then have "snd (update_metadata self)
        = self\<lparr>self_media_metadata := self_media_metadata (snd (update_metadata self))\<rparr>"
    using update_metadata_others [OF assms] by simp
  moreover have "fst (update_metadata self) = None"
    using update_metadata_others [OF assms] by simp
  ultimately show ?thesis
    by (metis prod.collapse)
qed

lemma update_state_spec:
  "self_status self = PDict d \<Longrightarrow>
   update_state self
   = (None, self\<lparr>self_state := State (spec_state (case map_of d ''state'' of None \<Rightarrow> PNone | Some v \<Rightarrow> v))\<rparr>)"
  by (simp add: update_state_def spec_state_def)


lemma update_position_ok:
  "self_status self = PDict d \<Longrightarrow> int_field (PDict d) ''time'' = Inr p \<Longrightarrow>
   update_position self = (None, self\<lparr>self_media_position := Some p\<rparr>)"
  by (simp add: update_position_def)

lemma update_position_async_ok:
  "self_status self = PDict d \<Longrightarrow> int_field (PDict d) ''position'' = Inr p \<Longrightarrow>
   update_position_async self = (None, self\<lparr>self_media_position := Some p\<rparr>)"
  by (simp add: update_position_async_def)

lemma update_duration_ok:
  "self_status self = PDict d \<Longrightarrow> int_field (PDict d) ''length'' = Inr l \<Longrightarrow>
   update_duration self = (None, self\<lparr>self_media_duration := Some l\<rparr>)"
  by (simp add: update_duration_def)

lemma update_volume_ok:
  "self_status self = PDict d \<Longrightarrow> int_field (PDict d) ''volume'' = Inr v \<Longrightarrow>
   update_volume self = (None, self\<lparr>self_volume := Some (of_int v / 256)\<rparr>)"
  by (simp add: update_volume_def)

lemma update_muted_ok:
  "self_status self = PDict d \<Longrightarrow> int_field (PDict d) ''volume'' = Inr v \<Longrightarrow>
   update_muted self = (None, self\<lparr>self_muted := Some (v = 0)\<rparr>)"
  by (simp add: update_muted_def)

lemma update_completes:
  assumes fetch: "snd (fetch_data get self None) = Inr (PDict d)"
    and time: "int_field (PDict d) ''time'' = Inr p"
    and len: "int_field (PDict d) ''length'' = Inr l"
    and vol: "int_field (PDict d) ''volume'' = Inr v"
  shows "fst (snd (update get self)) = None"
    and "self_state (snd (snd (update get self)))
         = State (spec_state (case map_of d ''state'' of None \<Rightarrow> PNone | Some x \<Rightarrow> x))"
    and "self_media_position (snd (snd (update get self))) = Some p"
    and "self_media_duration (snd (snd (update get self))) = Some l"
    and "self_volume (snd (snd (update get self))) = Some (of_int v / 256)"
    and "self_muted (snd (snd (update get self))) = Some (v = 0)"
proof -
  define s1 where "s1 = self\<lparr>self_status := PDict d\<rparr>"
  define s2 where "s2 = snd (update_metadata s1)"
  define s3 where "s3 = s2\<lparr>self_state := State (spec_state (case map_of d ''state'' of None \<Rightarrow> PNone | Some x \<Rightarrow> x))\<rparr>"
  have st1: "self_status s1 = PDict d"
    by (simp add: s1_def)
  have m: "update_metadata s1 = (None, s2)"
    using update_metadata_others [OF st1] by (simp add: s2_def prod_eq_iff)
  have "self_status (s2\<lparr>self_media_metadata := PNone\<rparr>) = self_status (s1\<lparr>self_media_metadata := PNone\<rparr>)"
    using update_metadata_others [OF st1, of PNone] by (simp add: s2_def)
  then have st2: "self_status s2 = PDict d"
    using st1 by simp
  have s: "update_state s2 = (None, s3)"
    using update_state_spec [OF st2] by (simp add: s3_def)
  have st3: "self_status s3 = PDict d"
    using st2 by (simp add: s3_def)
  have r: "run [update_metadata, update_state, update_position, update_duration,
                update_volume, update_muted] s1
           = (None, s3\<lparr>self_media_position := Some p, self_media_duration := Some l,
                       self_volume := Some (of_int v / 256), self_muted := Some (v = 0)\<rparr>)"
    using st3 time len vol
    by (simp add: m s update_position_ok update_duration_ok update_volume_ok update_muted_ok)
  have u: "snd (update get self)
           = (None, s3\<lparr>self_media_position := Some p, self_media_duration := Some l,
                       self_volume := Some (of_int v / 256), self_muted := Some (v = 0)\<rparr>)"
    using fetch r by (simp add: update_def fetch_data_returns s1_def)
  show "fst (snd (update get self)) = None"
    by (simp add: u)
  show "self_state (snd (snd (update get self)))
         = State (spec_state (case map_of d ''state'' of None \<Rightarrow> PNone | Some x \<Rightarrow> x))"
    by (simp add: u s3_def)
  show "self_media_position (snd (snd (update get self))) = Some p"
    by (simp add: u)
  show "self_media_duration (snd (snd (update get self))) = Some l"
    by (simp add: u)
  show "self_volume (snd (snd (update get self))) = Some (of_int v / 256)"
    by (simp add: u)
  show "self_muted (snd (snd (update get self))) = Some (v = 0)"
    by (simp add: u)
qed


lemma update_state_async_result:
  "self_status self = PDict d \<Longrightarrow>
   update_state_async self
   = (None, self\<lparr>self_state :=
        (let raw = (case map_of d ''state'' of None \<Rightarrow> PNone | Some v \<Rightarrow> v) in
         if raw = PStr ''playing'' then State STATE_PLAYING
         else if raw = PStr ''paused'' then State STATE_PAUSED
         else if raw = PStr ''stopped'' then State STATE_IDLE
         else self_state self)\<rparr>)"
  by (simp add: update_state_async_def)

lemma update_async_completes:
  assumes fetch: "snd (fetch_data_async get self None) = Inr (PDict d)"
    and pos: "int_field (PDict d) ''position'' = Inr p"
    and len: "int_field (PDict d) ''length'' = Inr l"
    and vol: "int_field (PDict d) ''volume'' = Inr v"
  shows "fst (snd (update_async get self)) = None"
    and "self_state (snd (snd (update_async get self)))
         = (let raw = (case map_of d ''state'' of None \<Rightarrow> PNone | Some v \<Rightarrow> v) in
            if raw = PStr ''playing'' then State STATE_PLAYING
            else if raw = PStr ''paused'' then State STATE_PAUSED
            else if raw = PStr ''stopped'' then State STATE_IDLE
            else self_state self)"
    and "self_media_position (snd (snd (update_async get self))) = Some p"
    and "self_media_duration (snd (snd (update_async get self))) = Some l"
    and "self_volume (snd (snd (update_async get self))) = Some (of_int v / 256)"
    and "self_muted (snd (snd (update_async get self))) = Some (v = 0)"
proof -
  define s1 where "s1 = self\<lparr>self_status := PDict d\<rparr>"
  define s2 where "s2 = snd (update_metadata s1)"
  define s3 where "s3 = snd (update_state_async s2)"
  have st1: "self_status s1 = PDict d"
    by (simp add: s1_def)
  have m: "update_metadata s1 = (None, s2)"
    using update_metadata_others [OF st1] by (simp add: s2_def prod_eq_iff)
  have "self_status (s2\<lparr>self_media_metadata := PNone\<rparr>) = self_status (s1\<lparr>self_media_metadata := PNone\<rparr>)"
    using update_metadata_others [OF st1, of PNone] by (simp add: s2_def)
  then have st2: "self_status s2 = PDict d"
    using st1 by simp
  have "self_state (s2\<lparr>self_media_metadata := PNone\<rparr>) = self_state (s1\<lparr>self_media_metadata := PNone\<rparr>)"
    using update_metadata_others [OF st1, of PNone] by (simp add: s2_def)
  then have state2: "self_state s2 = self_state self"
    by (simp add: s1_def)
  have s: "update_state_async s2 = (None, s3)"
    using update_state_async_result [OF st2] by (simp add: s3_def)
  have st3: "self_status s3 = PDict d"
    using st2 by (simp add: s3_def update_state_async_result [OF st2])
  have r: "run [update_metadata, update_state_async, update_position_async, update_duration,
                update_volume, update_muted] s1
           = (None, s3\<lparr>self_media_position := Some p, self_media_duration := Some l,
                       self_volume := Some (of_int v / 256), self_muted := Some (v = 0)\<rparr>)"
    using st3 pos len vol
    by (simp add: m s update_position_async_ok update_duration_ok update_volume_ok update_muted_ok)
  have u: "snd (update_async get self)
           = (None, s3\<lparr>self_media_position := Some p, self_media_duration := Some l,
                       self_volume := Some (of_int v / 256), self_muted := Some (v = 0)\<rparr>)"
    using fetch r by (simp add: update_async_def fetch_data_async_returns s1_def)
  show "fst (snd (update_async get self)) = None"
    by (simp add: u)
  show "self_state (snd (snd (update_async get self)))
         = (let raw = (case map_of d ''state'' of None \<Rightarrow> PNone | Some v \<Rightarrow> v) in
            if raw = PStr ''playing'' then State STATE_PLAYING
            else if raw = PStr ''paused'' then State STATE_PAUSED
            else if raw = PStr ''stopped'' then State STATE_IDLE
            else self_state self)"
    by (simp add: u s3_def update_state_async_result [OF st2] state2 Let_def)
  show "self_media_position (snd (snd (update_async get self))) = Some p"
    by (simp add: u)
  show "self_media_duration (snd (snd (update_async get self))) = Some l"
    by (simp add: u)
  show "self_volume (snd (snd (update_async get self))) = Some (of_int v / 256)"
    by (simp add: u)
  show "self_muted (snd (snd (update_async get self))) = Some (v = 0)"
    by (simp add: u)
qed

lemma int_field_decimal:
  "0 \<le> v \<Longrightarrow> map_of d key = Some (PStr (str_int v)) \<Longrightarrow> int_field (PDict d) key = Inr v"
  by (simp add: int_field_def int_of_str_str_int)

lemma volume_invariant_silent: "volume_invariant raw self \<Longrightarrow> muted_iff_silent self"
  by (simp add: volume_invariant_def muted_iff_silent_def)

text \<open>
  Claim C8, as amended. After an update that receives a status mapping with convertible
  position and length and the raw volume \<open>v\<close>, between 0 and 256, as decimal text, no
  exception has escaped, the volume is \<open>v / 256\<close> and the entity is muted exactly when
  \<open>v = 0\<close>; play, pause and stop leave the invariant as it was, in both revisions. Mute
  and set-volume are not covered: each assigns its own attribute only.
\<close>

theorem update_establishes_volume_invariant:
  "(snd (fetch_data get self None) = Inr (PDict d)
      \<and> int_field (PDict d) ''time'' = Inr p \<and> int_field (PDict d) ''length'' = Inr l
      \<and> 0 \<le> v \<and> v \<le> 256 \<and> map_of d ''volume'' = Some (PStr (str_int v))
    \<longrightarrow> fst (snd (update get self)) = None
        \<and> volume_invariant v (snd (snd (update get self)))
        \<and> muted_iff_silent (snd (snd (update get self))))
   \<and> (snd (fetch_data_async get self None) = Inr (PDict d)
      \<and> int_field (PDict d) ''position'' = Inr p \<and> int_field (PDict d) ''length'' = Inr l
      \<and> 0 \<le> v \<and> v \<le> 256 \<and> map_of d ''volume'' = Some (PStr (str_int v))
    \<longrightarrow> fst (snd (update_async get self)) = None
        \<and> volume_invariant v (snd (snd (update_async get self)))
        \<and> muted_iff_silent (snd (snd (update_async get self))))
   \<and> volume_invariant v (snd (snd (media_play get self))) = volume_invariant v self
   \<and> volume_invariant v (snd (snd (media_pause get self))) = volume_invariant v self
   \<and> volume_invariant v (snd (snd (media_stop get self))) = volume_invariant v self
   \<and> volume_invariant v (snd (snd (media_play_async self))) = volume_invariant v self
   \<and> volume_invariant v (snd (snd (media_pause_async self))) = volume_invariant v self
   \<and> volume_invariant v (snd (snd (media_stop_async self))) = volume_invariant v self
   \<and> muted_iff_silent (snd (snd (media_play get self))) = muted_iff_silent self
   \<and> muted_iff_silent (snd (snd (media_pause get self))) = muted_iff_silent self
   \<and> muted_iff_silent (snd (snd (media_stop get self))) = muted_iff_silent self
   \<and> muted_iff_silent (snd (snd (media_play_async self))) = muted_iff_silent self
   \<and> muted_iff_silent (snd (snd (media_pause_async self))) = muted_iff_silent self
   \<and> muted_iff_silent (snd (snd (media_stop_async self))) = muted_iff_silent self"
proof -
  have sync: "fst (snd (update get self)) = None
        \<and> volume_invariant v (snd (snd (update get self)))
        \<and> muted_iff_silent (snd (snd (update get self)))"
    if "snd (fetch_data get self None) = Inr (PDict d)"
      and "int_field (PDict d) ''time'' = Inr p" and "int_field (PDict d) ''length'' = Inr l"
      and "0 \<le> v" and "map_of d ''volume'' = Some (PStr (str_int v))"
  proof -
    have vol: "int_field (PDict d) ''volume'' = Inr v"
      using that by (simp add: int_field_decimal)
    have inv: "volume_invariant v (snd (snd (update get self)))"
      using update_completes(5,6) [OF that(1,2,3) vol] by (simp add: volume_invariant_def)
    with update_completes(1) [OF that(1,2,3) vol] show ?thesis
      by (simp add: volume_invariant_silent)
  qed
  have async: "fst (snd (update_async get self)) = None
        \<and> volume_invariant v (snd (snd (update_async get self)))
        \<and> muted_iff_silent (snd (snd (update_async get self)))"
    if "snd (fetch_data_async get self None) = Inr (PDict d)"
      and "int_field (PDict d) ''position'' = Inr p" and "int_field (PDict d) ''length'' = Inr l"
      and "0 \<le> v" and "map_of d ''volume'' = Some (PStr (str_int v))"
  proof -
    have vol: "int_field (PDict d) ''volume'' = Inr v"
      using that by (simp add: int_field_decimal)
    have inv: "volume_invariant v (snd (snd (update_async get self)))"
      using update_async_completes(5,6) [OF that(1,2,3) vol] by (simp add: volume_invariant_def)
    with update_async_completes(1) [OF that(1,2,3) vol] show ?thesis
      by (simp add: volume_invariant_silent)
  qed
  have keep: "volume_invariant v (snd (snd (media_play get self))) = volume_invariant v self
   \<and> volume_invariant v (snd (snd (media_pause get self))) = volume_invariant v self
   \<and> volume_invariant v (snd (snd (media_stop get self))) = volume_invariant v self
   \<and> volume_invariant v (snd (snd (media_play_async self))) = volume_invariant v self
   \<and> volume_invariant v (snd (snd (media_pause_async self))) = volume_invariant v self
   \<and> volume_invariant v (snd (snd (media_stop_async self))) = volume_invariant v self
   \<and> muted_iff_silent (snd (snd (media_play get self))) = muted_iff_silent self
   \<and> muted_iff_silent (snd (snd (media_pause get self))) = muted_iff_silent self
   \<and> muted_iff_silent (snd (snd (media_stop get self))) = muted_iff_silent self
   \<and> muted_iff_silent (snd (snd (media_play_async self))) = muted_iff_silent self
   \<and> muted_iff_silent (snd (snd (media_pause_async self))) = muted_iff_silent self
   \<and> muted_iff_silent (snd (snd (media_stop_async self))) = muted_iff_silent self"
    by (simp add: media_play_def media_pause_def media_stop_def media_play_async_def
        media_pause_async_def media_stop_async_def fetch_data_returns
        volume_invariant_def muted_iff_silent_def split: option.split)
  from sync async keep show ?thesis
    by blast
qed

text \<open>The definitions that a concrete run unfolds.\<close>

lemmas run_eval =
  update_def update_async_def fetch_data_def fetch_data_async_def fetch_url_def
  fetch_url_async_def fetch_try_def serve_def unreachable_def
  update_metadata_def update_state_def update_state_async_def update_position_def
  update_position_async_def update_duration_def update_volume_def update_muted_def
  int_field_def int_of_str_eval str_int_eval
  living_room_def living_room_async_def init_def init_async_def
  state_only_status_def fraction_status_def opening_status_def song_status_def song_fields_def
  song_information_def song_categories_def song_meta_def title_item_def artist_item_def
  codec_category_def playing_at_half_def after_show_def show_status_def show_fields_def
  show_information_def show_meta_def show_item_def stream_category_def bare_status_def
  bare_fields_def named_def categories_def
  media_position_def media_duration_def volume_level_def is_volume_muted_def state_def
  state_async_def media_play_def media_play_async_def media_pause_async_def
  media_title_def self_media_dot_metadata_def media_artist_def media_artist_try_def
  media_title_async_def media_artist_async_def
  set_volume_level_def mute_volume_def py_int_float_def spec_volume_command_def
  spec_round_def volume_invariant_def muted_iff_silent_def

text \<open>
  The theorem at work: a poll of \<^verbatim>\<open>src/__init__.py\<close> that finds volume 128, and one of
  \<^verbatim>\<open>media_player.py\<close> that finds volume 0.
\<close>

theorem update_establishes_volume_invariant_witness:
  "snd (fetch_data (serve ''root'' (song_status 128)) living_room None) = Inr (PDict (song_fields 128))
   \<and> int_field (PDict (song_fields 128)) ''time'' = Inr 12
   \<and> int_field (PDict (song_fields 128)) ''length'' = Inr 300
   \<and> (0::int) \<le> 128 \<and> (128::int) \<le> 256
   \<and> map_of (song_fields 128) ''volume'' = Some (PStr (str_int 128))
   \<and> fst (snd (update (serve ''root'' (song_status 128)) living_room)) = None
   \<and> volume_invariant 128 (snd (snd (update (serve ''root'' (song_status 128)) living_room)))
   \<and> muted_iff_silent (snd (snd (update (serve ''root'' (song_status 128)) living_room)))
   \<and> snd (fetch_data_async (serve ''root'' (song_status 0)) living_room_async None)
       = Inr (PDict (song_fields 0))
   \<and> int_field (PDict (song_fields 0)) ''position'' = Inr 0
   \<and> int_field (PDict (song_fields 0)) ''length'' = Inr 300
   \<and> (0::int) \<le> 0 \<and> (0::int) \<le> 256
   \<and> map_of (song_fields 0) ''volume'' = Some (PStr (str_int 0))
   \<and> fst (snd (update_async (serve ''root'' (song_status 0)) living_room_async)) = None
   \<and> volume_invariant 0 (snd (snd (update_async (serve ''root'' (song_status 0)) living_room_async)))
   \<and> muted_iff_silent (snd (snd (update_async (serve ''root'' (song_status 0)) living_room_async)))"
proof -
  have a: "snd (fetch_data (serve ''root'' (song_status 128)) living_room None)
           = Inr (PDict (song_fields 128))"
    by (simp add: fetch_data_returns fetch_try_def serve_def song_status_def)
  have b: "int_field (PDict (song_fields 128)) ''time'' = Inr 12"
    "int_field (PDict (song_fields 128)) ''length'' = Inr 300"
    "map_of (song_fields 128) ''volume'' = Some (PStr (str_int 128))"
    by (simp_all add: song_fields_def int_field_def int_of_str_eval)
  have c: "snd (fetch_data_async (serve ''root'' (song_status 0)) living_room_async None)
           = Inr (PDict (song_fields 0))"
    by (simp add: fetch_data_async_returns fetch_try_def serve_def song_status_def)
  have d: "int_field (PDict (song_fields 0)) ''position'' = Inr 0"
    "int_field (PDict (song_fields 0)) ''length'' = Inr 300"
    "map_of (song_fields 0) ''volume'' = Some (PStr (str_int 0))"
    by (simp_all add: song_fields_def int_field_def int_of_str_eval)
  from a b c d show ?thesis
    using update_establishes_volume_invariant
        [of "serve ''root'' (song_status 128)" living_room "song_fields 128" 12 300 128]
      update_establishes_volume_invariant
        [of "serve ''root'' (song_status 0)" living_room_async "song_fields 0" 0 300 0]
    by simp
qed

text \<open>
  Claim C8 as stated fails for mute and set-volume. After a poll at volume 128 the
  invariant holds; muting then leaves the volume at one half with the mute flag set, and
  setting the volume to 0 instead leaves the mute flag clear.
\<close>

theorem mute_breaks_volume_invariant:
  "volume_invariant 128 playing_at_half
   \<and> muted_iff_silent playing_at_half
   \<and> volume_level (snd (snd (mute_volume unreachable True playing_at_half))) = Some (1 / 2)
   \<and> is_volume_muted (snd (snd (mute_volume unreachable True playing_at_half))) = Some True
   \<and> \<not> muted_iff_silent (snd (snd (mute_volume unreachable True playing_at_half)))
   \<and> \<not> volume_invariant 0 (snd (snd (mute_volume unreachable True playing_at_half)))
   \<and> \<not> volume_invariant 128 (snd (snd (mute_volume unreachable True playing_at_half)))
   \<and> volume_level (snd (snd (set_volume_level unreachable 0 playing_at_half))) = Some 0
   \<and> is_volume_muted (snd (snd (set_volume_level unreachable 0 playing_at_half))) = Some False
   \<and> \<not> muted_iff_silent (snd (snd (set_volume_level unreachable 0 playing_at_half)))"
  by (simp add: run_eval)

section \<open>The update cycle: missing fields and the state mapping\<close>

lemma numeric_phases_keep_state:
  "self_state (snd (run [update_position, update_duration, update_volume, update_muted] self))
   = self_state self"
  by (simp add: update_position_def update_duration_def update_volume_def
      update_muted_def split: sum.split)

lemma numeric_phases_complete:
  assumes "self_status self = PDict d"
    and "fst (run [update_position, update_duration, update_volume, update_muted] self) = None"
  shows "(\<exists>p. int_field (PDict d) ''time'' = Inr p)
         \<and> (\<exists>l. int_field (PDict d) ''length'' = Inr l)
         \<and> (\<exists>v. int_field (PDict d) ''volume'' = Inr v)"
  using assms
  by (auto simp: update_position_def update_duration_def update_volume_def update_muted_def
      split: sum.splits)

lemma update_reaches_numeric_phases:
  assumes "snd (fetch_data get self None) = Inr (PDict d)"
  shows "\<exists>s3. self_status s3 = PDict d
           \<and> self_state s3 = State (spec_state (case map_of d ''state'' of None \<Rightarrow> PNone | Some x \<Rightarrow> x))
           \<and> snd (update get self)
               = run [update_position, update_duration, update_volume, update_muted] s3"
proof -
  define s1 where "s1 = self\<lparr>self_status := PDict d\<rparr>"
  define s2 where "s2 = snd (update_metadata s1)"
  define s3 where "s3 = s2\<lparr>self_state := State (spec_state (case map_of d ''state'' of None \<Rightarrow> PNone | Some x \<Rightarrow> x))\<rparr>"
  have st1: "self_status s1 = PDict d"
    by (simp add: s1_def)
  have m: "update_metadata s1 = (None, s2)"
    using update_metadata_others [OF st1] by (simp add: s2_def prod_eq_iff)
  have "self_status (s2\<lparr>self_media_metadata := PNone\<rparr>) = self_status (s1\<lparr>self_media_metadata := PNone\<rparr>)"
    using update_metadata_others [OF st1, of PNone] by (simp add: s2_def)
  then have st2: "self_status s2 = PDict d"
    using st1 by simp
  have s: "update_state s2 = (None, s3)"
    using update_state_spec [OF st2] by (simp add: s3_def)
  have "snd (update get self)
        = run [update_metadata, update_state, update_position, update_duration,
               update_volume, update_muted] s1"
    using assms by (simp add: update_def fetch_data_returns s1_def)
  also have "\<dots> = run [update_position, update_duration, update_volume, update_muted] s3"
    by (simp add: m s)
  finally have "snd (update get self)
      = run [update_position, update_duration, update_volume, update_muted] s3" .
  moreover have "self_status s3 = PDict d"
    using st2 by (simp add: s3_def)
  moreover have "self_state s3
      = State (spec_state (case map_of d ''state'' of None \<Rightarrow> PNone | Some x \<Rightarrow> x))"
    by (simp add: s3_def)
  ultimately show ?thesis
    by blast
qed

text \<open>
  In \<^verbatim>\<open>src/__init__.py\<close> the state after an update that received a mapping is the
  specification's, whatever it was before and whether or not a later line raises.
\<close>

lemma update_state_is_spec_state:
  assumes "snd (fetch_data get self None) = Inr (PDict d)"
  shows "state (snd (snd (update get self)))
         = State (spec_state (case map_of d ''state'' of None \<Rightarrow> PNone | Some x \<Rightarrow> x))"
proof -
  obtain s3 where "self_state s3
        = State (spec_state (case map_of d ''state'' of None \<Rightarrow> PNone | Some x \<Rightarrow> x))"
    and "snd (update get self)
        = run [update_position, update_duration, update_volume, update_muted] s3"
    using update_reaches_numeric_phases [OF assms] by blast
  then show ?thesis
    by (simp add: state_def numeric_phases_keep_state del: run.simps)
qed

text \<open>
  An update that received a mapping completes only if the values under \<^verbatim>\<open>time\<close>,
  \<^verbatim>\<open>length\<close> and \<^verbatim>\<open>volume\<close> all convert; with one of the keys absent it raises.
\<close>

lemma update_completes_only_if:
  assumes "snd (fetch_data get self None) = Inr (PDict d)"
    and "fst (snd (update get self)) = None"
  shows "(\<exists>p. int_field (PDict d) ''time'' = Inr p)
         \<and> (\<exists>l. int_field (PDict d) ''length'' = Inr l)
         \<and> (\<exists>v. int_field (PDict d) ''volume'' = Inr v)"
proof -
  obtain s3 where "self_status s3 = PDict d"
    and "snd (update get self)
        = run [update_position, update_duration, update_volume, update_muted] s3"
    using update_reaches_numeric_phases [OF assms(1)] by blast
  with assms(2) show ?thesis
    using numeric_phases_complete [of s3 d] by simp
qed

lemma int_field_absent: "map_of d key = None \<Longrightarrow> int_field (PDict d) key = Inl TypeError"
  by (simp add: int_field_def)

lemma update_raises_if_key_absent:
  assumes "snd (fetch_data get self None) = Inr (PDict d)"
    and "map_of d ''time'' = None \<or> map_of d ''length'' = None \<or> map_of d ''volume'' = None"
  shows "\<exists>e. fst (snd (update get self)) = Some e"
proof (rule ccontr)
  assume "\<nexists>e. fst (snd (update get self)) = Some e"
  then have "fst (snd (update get self)) = None"
    by (cases "fst (snd (update get self))") auto
  from update_completes_only_if [OF assms(1) this] assms(2) show False
    by (auto simp: int_field_absent)
qed

text \<open>
  Claim C1. The claim asks that an update on a status without the numeric keys raises
  nothing and stores position 0, duration 0, volume 0.0 and muted. The code raises
  \<^verbatim>\<open>TypeError\<close> at \<^verbatim>\<open>int(None)\<close> and stores none of them: on the empty mapping that
  \<^verbatim>\<open>fetch_data\<close> itself returns after a failed request, and on a document that has only
  a state; in both revisions. A field that does not read as an integer raises
  \<^verbatim>\<open>ValueError\<close>, as the fractional \<^verbatim>\<open>position\<close> does in \<^verbatim>\<open>media_player.py\<close>.
\<close>

theorem update_raises_on_missing_fields:
  "update unreachable living_room
   = ([''http://localhost:8080/requests.status.xml''], Some TypeError,
      living_room\<lparr>self_state := State STATE_IDLE\<rparr>)
   \<and> fst (snd (update (serve ''root'' state_only_status) living_room)) = Some TypeError
   \<and> media_position (snd (snd (update (serve ''root'' state_only_status) living_room))) = None
   \<and> media_duration (snd (snd (update (serve ''root'' state_only_status) living_room))) = None
   \<and> volume_level (snd (snd (update (serve ''root'' state_only_status) living_room))) = None
   \<and> is_volume_muted (snd (snd (update (serve ''root'' state_only_status) living_room))) = None
   \<and> fst (snd (update_async (serve ''root'' state_only_status) living_room_async)) = Some TypeError
   \<and> fst (snd (update_async (serve ''root'' fraction_status) living_room_async)) = Some ValueError"
  by (simp add: run_eval)

text \<open>
  Claim C2. The claim asks that every state string other than \<^verbatim>\<open>"playing"\<close> and
  \<^verbatim>\<open>"paused"\<close>, and an absent key, lead to one default whatever the state was before.
  \<^verbatim>\<open>src/__init__.py\<close> does so (\<open>update_state_is_spec_state\<close>). In \<^verbatim>\<open>media_player.py\<close> the
  chain ends with a test for \<^verbatim>\<open>"stopped"\<close> and has no \<^verbatim>\<open>else\<close>: on another string or an
  absent key the state stays what it was, the constructor's \<^verbatim>\<open>{}\<close> included.
\<close>

theorem update_async_keeps_prior_state:
  "fst (snd (update_async (serve ''root'' opening_status) living_room_async)) = None
   \<and> state_async (snd (snd (update_async (serve ''root'' opening_status) living_room_async)))
       = StateEmptyDict
   \<and> state_async (snd (snd (update_async (serve ''root'' opening_status)
         (snd (snd (media_play_async living_room_async)))))) = State STATE_PLAYING
   \<and> state_async (snd (snd (update_async (serve ''root'' opening_status)
         (snd (snd (media_pause_async living_room_async)))))) = State STATE_PAUSED
   \<and> state_async (snd (snd (update_async unreachable
         (snd (snd (media_play_async living_room_async)))))) = State STATE_PLAYING
   \<and> state (snd (snd (update (serve ''root'' opening_status)
         (snd (snd (media_play unreachable living_room)))))) = State STATE_IDLE"
  by (simp add: run_eval)

section \<open>Title and artist\<close>









lemma named_PDict: "named n (PDict e) = (map_of e ''@name'' = Some (PStr n))"
  by (simp add: named_def)










section \<open>Volume commands\<close>

lemma py_int_float_nonneg: "0 \<le> x \<Longrightarrow> py_int_float x = \<lfloor>x\<rfloor>"
  by (simp add: py_int_float_def)

text \<open>
  Claim C7, as amended. For a level between 0 and 1, set-volume requests the URL of the
  command \<^verbatim>\<open>volume&val=\<close> followed by the integer part of \<open>level * 256\<close> (the product
  truncated, not rounded); mute requests \<^verbatim>\<open>volume&val=0\<close> and unmute \<^verbatim>\<open>volume&val=256\<close>.
\<close>

theorem volume_commands:
  assumes "0 \<le> level" and "level \<le> 1"
  shows "fst (set_volume_level get level self)
           = [fetch_url self (Some (''volume&val='' @ str_int \<lfloor>level * 256\<rfloor>))]
         \<and> fst (mute_volume get True self) = [fetch_url self (Some ''volume&val=0'')]
         \<and> fst (mute_volume get False self) = [fetch_url self (Some ''volume&val=256'')]"
  using assms
  by (simp add: set_volume_level_def mute_volume_def fetch_data_returns py_int_float_nonneg)

text \<open>At level one half the command is \<^verbatim>\<open>volume&val=128\<close>.\<close>

theorem volume_commands_witness:
  "(0::rat) \<le> 1 / 2 \<and> (1 / 2 :: rat) \<le> 1
   \<and> fst (set_volume_level unreachable (1 / 2) living_room)
       = [''http://localhost:8080/requests.status.xml?command=volume&val=128'']
   \<and> fst (mute_volume unreachable True living_room)
       = [''http://localhost:8080/requests.status.xml?command=volume&val=0'']
   \<and> fst (mute_volume unreachable False living_room)
       = [''http://localhost:8080/requests.status.xml?command=volume&val=256'']"
proof -
  have h: "(0::rat) \<le> 1 / 2" "(1 / 2 :: rat) \<le> 1"
    by simp_all
  have n: "str_int \<lfloor>1 / 2 * 256 :: rat\<rfloor> = ''128''"
    by (simp add: str_int_eval)
  have u: "fetch_url living_room (Some c)
           = ''http://localhost:8080/requests.status.xml?command='' @ c" for c
    by (simp add: fetch_url_def living_room_def init_def)
  note r = volume_commands [OF h, of unreachable living_room]
  have r1: "fst (set_volume_level unreachable (1 / 2) living_room)
            = [fetch_url living_room (Some (''volume&val='' @ str_int \<lfloor>1 / 2 * 256 :: rat\<rfloor>))]"
    using r by (rule conjunct1)
  have r2: "fst (mute_volume unreachable True living_room)
            = [fetch_url living_room (Some ''volume&val=0'')]"
    using r by (rule conjunct1 [OF conjunct2])
  have r3: "fst (mute_volume unreachable False living_room)
            = [fetch_url living_room (Some ''volume&val=256'')]"
    using r by (rule conjunct2 [OF conjunct2])
  show ?thesis
    unfolding r1 r2 r3 n u using h by simp
qed

text \<open>
  Claim C7 as stated fails where truncating and rounding differ: at level 1023/1024 the
  product is 255.75, the code sends 255, and the specification's command has 256.
\<close>

theorem set_volume_round_counterexample:
  "(0::rat) \<le> 1023 / 1024 \<and> (1023 / 1024 :: rat) \<le> 1
   \<and> fst (set_volume_level unreachable (1023 / 1024) living_room)
       = [''http://localhost:8080/requests.status.xml?command=volume&val=255'']
   \<and> spec_volume_command (1023 / 1024) = ''volume&val=256''"
proof -
  have f: "\<lfloor>1023 / 4 :: rat\<rfloor> = 255"
    by (simp add: floor_eq_iff)
  show ?thesis
    by (simp add: run_eval f)
qed

end
